theory Spec2Isabelle
  imports Main
begin

section \<open>The service worker of xpress-calc\<close>

text \<open>
  The program is \<^verbatim>\<open>src/web/public/serviceworker.js\<close>: a listener for the
  \<^verbatim>\<open>fetch\<close> event and the function \<^verbatim>\<open>requestOverNetwork\<close>. Both are chains of
  promises over four primitives of the host (\<^verbatim>\<open>caches.match\<close>, \<^verbatim>\<open>fetch\<close>,
  \<^verbatim>\<open>caches.open\<close>, \<^verbatim>\<open>cache.put\<close>), \<^verbatim>\<open>response.clone\<close> and \<^verbatim>\<open>console.error\<close>.

  A promise is modelled as a computation on the world of the worker that ends fulfilled
  with a value or rejected with a reason. The world holds the response objects, the named
  cache stores and the ordered list of everything the worker asked of the host.
\<close>

subsection \<open>Values, outcomes and the world\<close>

type_synonym request = string
type_synonym reason = string
type_synonym addr = nat

text \<open>A response object: its body, and whether the body has been read already.\<close>

record response =
  body :: string
  bodyUsed :: bool

text \<open>What a JavaScript variable of the program holds: a response object or \<^verbatim>\<open>undefined\<close>.\<close>

datatype jsval = Undefined | Resp addr

datatype 'a outcome = Fulfilled 'a | Rejected reason

text \<open>
  One entry per interaction with the host, in the order in which they happen. The
  asynchronous primitives leave one entry when they are called and one when they settle.
\<close>

datatype effect =
    MatchCalled request
  | MatchSettled "jsval outcome"
  | FetchCalled request
  | FetchSettled "jsval outcome"
  | Cloned jsval jsval
  | OpenCalled string
  | OpenSettled "string outcome"
  | PutCalled string request jsval
  | PutSettled "unit outcome"
  | ConsoleError string reason

type_synonym cache = "request \<rightharpoonup> string"
type_synonym cache_storage = "(string \<times> cache) list"

record world =
  heap :: "response list"
  caches :: cache_storage
  trace :: "effect list"

type_synonym 'a promise = "world \<Rightarrow> 'a outcome \<times> world"

text \<open>The event: the program reads only \<^verbatim>\<open>event.request\<close>.\<close>

record fetch_event =
  request :: request

text \<open>
  How the host answers: whether the lookup, the opening of a store or a write fails (and
  with what reason), and what the network returns for a request (a rejection or the body
  of the response).
\<close>

record platform =
  match_fault :: "request \<Rightarrow> reason option"
  network :: "request \<Rightarrow> reason + string"
  open_fault :: "string \<Rightarrow> reason option"
  put_fault :: "string \<Rightarrow> request \<Rightarrow> reason option"

subsection \<open>Promises\<close>

definition resolve :: "'a \<Rightarrow> 'a promise" where
  "resolve v w = (Fulfilled v, w)"

definition reject :: "reason \<Rightarrow> 'a promise" where
  "reject e w = (Rejected e, w)"

text \<open>
  \<^verbatim>\<open>p.then(f)\<close>: \<open>f\<close> runs once \<open>p\<close> is fulfilled, in the world \<open>p\<close> left; a rejection of
  \<open>p\<close> skips \<open>f\<close> and is passed on. An exception thrown in \<open>f\<close> is a rejection of the result.
\<close>

definition promise_then :: "'a promise \<Rightarrow> ('a \<Rightarrow> 'b promise) \<Rightarrow> 'b promise" where
  "promise_then p f w =
     (case p w of
        (Fulfilled v, w') \<Rightarrow> f v w'
      | (Rejected e, w') \<Rightarrow> (Rejected e, w'))"

text \<open>\<^verbatim>\<open>p.catch(h)\<close>: \<open>h\<close> runs once \<open>p\<close> is rejected; a fulfilled \<open>p\<close> is passed on.\<close>

definition promise_catch :: "'a promise \<Rightarrow> (reason \<Rightarrow> 'a promise) \<Rightarrow> 'a promise" where
  "promise_catch p h w =
     (case p w of
        (Fulfilled v, w') \<Rightarrow> (Fulfilled v, w')
      | (Rejected e, w') \<Rightarrow> h e w')"

text \<open>
  A promise that is started and whose result nobody reads (an expression statement): its
  effects happen, its outcome is dropped and the statement after it runs in any case. The
  effects are recorded where the promise is started; the program does nothing after the
  statement but return, so when they really happen makes no difference to the final world.
\<close>

definition detached :: "'a promise \<Rightarrow> unit promise" where
  "detached p w = (Fulfilled (), snd (p w))"

subsection \<open>The host\<close>

definition emit :: "effect \<Rightarrow> world \<Rightarrow> world" where
  "emit e w = w\<lparr>trace := trace w @ [e]\<rparr>"

definition alloc :: "response \<Rightarrow> world \<Rightarrow> addr \<times> world" where
  "alloc r w = (length (heap w), w\<lparr>heap := heap w @ [r]\<rparr>)"

definition obj :: "world \<Rightarrow> jsval \<Rightarrow> response option" where
  "obj w v =
     (case v of
        Undefined \<Rightarrow> None
      | Resp a \<Rightarrow> (if a < length (heap w) then Some (heap w ! a) else None))"

fun storage_match :: "cache_storage \<Rightarrow> request \<Rightarrow> string option" where
  "storage_match [] req = None"
| "storage_match ((n, c) # cs) req =
     (case c req of Some b \<Rightarrow> Some b | None \<Rightarrow> storage_match cs req)"

definition storage_open :: "cache_storage \<Rightarrow> string \<Rightarrow> cache_storage" where
  "storage_open cs name =
     (case map_of cs name of None \<Rightarrow> cs @ [(name, Map.empty)] | Some c \<Rightarrow> cs)"

fun storage_put :: "cache_storage \<Rightarrow> string \<Rightarrow> request \<Rightarrow> string \<Rightarrow> cache_storage" where
  "storage_put [] name req b = []"
| "storage_put ((n, c) # cs) name req b =
     (if n = name then (n, c(req \<mapsto> b)) # cs else (n, c) # storage_put cs name req b)"

definition entry :: "cache_storage \<Rightarrow> string \<Rightarrow> request \<Rightarrow> string option" where
  "entry cs name req = (case map_of cs name of None \<Rightarrow> None | Some c \<Rightarrow> c req)"

text \<open>
  Modelled from the spec: \<^verbatim>\<open>caches.match\<close> of the host, "match(request) -> response|absent
  (async)", which can also reject (the CacheLookupError of the spec). A hit is a new
  response object with the stored body; the stores are searched in the order of their
  creation.
\<close>

definition caches_match :: "platform \<Rightarrow> request \<Rightarrow> jsval promise" where
  "caches_match P req w =
     (let w1 = emit (MatchCalled req) w in
      case match_fault P req of
        Some e \<Rightarrow> (Rejected e, emit (MatchSettled (Rejected e)) w1)
      | None \<Rightarrow>
          (case storage_match (caches w1) req of
             None \<Rightarrow> (Fulfilled Undefined, emit (MatchSettled (Fulfilled Undefined)) w1)
           | Some b \<Rightarrow>
               (let (a, w2) = alloc \<lparr>body = b, bodyUsed = False\<rparr> w1 in
                (Fulfilled (Resp a), emit (MatchSettled (Fulfilled (Resp a))) w2))))"

text \<open>
  Modelled from the spec: \<^verbatim>\<open>fetch\<close> of the host, "fetch(request) -> response (async)",
  which rejects when the network fails (the NetworkFetchError of the spec). A success is a
  new response object whose body has not been read.
\<close>

definition fetch :: "platform \<Rightarrow> request \<Rightarrow> jsval promise" where
  "fetch P req w =
     (let w1 = emit (FetchCalled req) w in
      case network P req of
        Inl e \<Rightarrow> (Rejected e, emit (FetchSettled (Rejected e)) w1)
      | Inr b \<Rightarrow>
          (let (a, w2) = alloc \<lparr>body = b, bodyUsed = False\<rparr> w1 in
           (Fulfilled (Resp a), emit (FetchSettled (Fulfilled (Resp a))) w2)))"

text \<open>
  Modelled from the spec: \<^verbatim>\<open>response.clone()\<close>, "responses support a duplication
  operation yielding an independently-readable copy". It throws on \<^verbatim>\<open>undefined\<close> and on a
  response whose body has been read.
\<close>

definition clone :: "jsval \<Rightarrow> jsval promise" where
  "clone v w =
     (case obj w v of
        None \<Rightarrow> (Rejected ''TypeError'', w)
      | Some r \<Rightarrow>
          (if bodyUsed r then (Rejected ''TypeError'', w)
           else (let (c, w1) = alloc \<lparr>body = body r, bodyUsed = False\<rparr> w in
                 (Fulfilled (Resp c), emit (Cloned v (Resp c)) w1))))"

text \<open>
  Modelled from the spec: \<^verbatim>\<open>caches.open\<close> of the host, "open(name) -> store (async)";
  the store is "created implicitly" when it does not exist. The store handed to the
  continuation is known by its name.
\<close>

definition caches_open :: "platform \<Rightarrow> string \<Rightarrow> string promise" where
  "caches_open P name w =
     (let w1 = emit (OpenCalled name) w in
      case open_fault P name of
        Some e \<Rightarrow> (Rejected e, emit (OpenSettled (Rejected e)) w1)
      | None \<Rightarrow>
          (Fulfilled name,
           emit (OpenSettled (Fulfilled name)) (w1\<lparr>caches := storage_open (caches w1) name\<rparr>)))"

text \<open>
  Modelled from the spec: \<^verbatim>\<open>cache.put\<close> of the host, "store.put(request, response) ->
  void (async)". A write that succeeds reads the body of the response it is given (the
  body is single-read) and stores it under the request; a write that fails changes nothing.
\<close>

definition cache_put :: "platform \<Rightarrow> string \<Rightarrow> request \<Rightarrow> jsval \<Rightarrow> unit promise" where
  "cache_put P name req v w =
     (let w1 = emit (PutCalled name req v) w in
      case put_fault P name req of
        Some e \<Rightarrow> (Rejected e, emit (PutSettled (Rejected e)) w1)
      | None \<Rightarrow>
          (case v of
             Undefined \<Rightarrow> (Rejected ''TypeError'', emit (PutSettled (Rejected ''TypeError'')) w1)
           | Resp a \<Rightarrow>
               (case obj w1 v of
                  None \<Rightarrow> (Rejected ''TypeError'', emit (PutSettled (Rejected ''TypeError'')) w1)
                | Some r \<Rightarrow>
                    (if bodyUsed r
                     then (Rejected ''TypeError'', emit (PutSettled (Rejected ''TypeError'')) w1)
                     else (Fulfilled (),
                           emit (PutSettled (Fulfilled ()))
                             (w1\<lparr>heap := (heap w1)[a := r\<lparr>bodyUsed := True\<rparr>],
                                 caches := storage_put (caches w1) name req (body r)\<rparr>))))))"

definition console_error :: "string \<Rightarrow> reason \<Rightarrow> unit promise" where
  "console_error msg e w = (Fulfilled (), emit (ConsoleError msg e) w)"

subsection \<open>The program\<close>

text \<open>
  \<^verbatim>\<open>requestOverNetwork\<close>, lines 16 to 28. The callback of \<^verbatim>\<open>then\<close> clones the response,
  starts the chain \<^verbatim>\<open>caches.open(...).then(cache => { cache.put(...); })\<close> without reading
  its result (the inner callback does not return the promise of \<^verbatim>\<open>put\<close> either), and returns
  the response. The \<^verbatim>\<open>catch\<close> covers the fetch and the callback.
\<close>

definition requestOverNetwork :: "platform \<Rightarrow> fetch_event \<Rightarrow> jsval promise" where
  "requestOverNetwork P event =
     promise_catch
       (promise_then (fetch P (request event)) (\<lambda>response.
          promise_then (clone response) (\<lambda>responseClone.
          promise_then
            (detached
               (promise_then (caches_open P ''xpress-calc'') (\<lambda>cache.
                  detached (cache_put P cache (request event) responseClone))))
            (\<lambda>_. resolve response))))
       (\<lambda>reason.
          promise_then (console_error ''ServiceWorker fetch failed: '' reason) (\<lambda>_.
            reject reason))"

text \<open>
  The listener, lines 1 to 14: the promise handed to \<^verbatim>\<open>event.respondWith\<close>.
\<close>

definition onfetch :: "platform \<Rightarrow> fetch_event \<Rightarrow> jsval promise" where
  "onfetch P event =
     promise_catch
       (promise_then (caches_match P (request event)) (\<lambda>cachedResponse.
          (let networkFetch = requestOverNetwork P event in
           promise_catch networkFetch (\<lambda>_. resolve cachedResponse))))
       (\<lambda>reason.
          promise_then (console_error ''ServiceWorker cache match failed: '' reason) (\<lambda>_.
            (let networkFetch = requestOverNetwork P event in
             networkFetch)))"

subsection \<open>Reading the trace\<close>

text \<open>The requests fetched, the outcomes of the fetches, the diagnostics written, the
  stores opened, the writes issued and the duplications made, each in order.\<close>

definition fetch_calls :: "effect list \<Rightarrow> request list" where
  "fetch_calls es = [r. FetchCalled r \<leftarrow> es]"

definition fetched :: "effect list \<Rightarrow> jsval outcome list" where
  "fetched es = [out. FetchSettled out \<leftarrow> es]"

definition console :: "effect list \<Rightarrow> (string \<times> reason) list" where
  "console es = [(msg, e). ConsoleError msg e \<leftarrow> es]"

definition open_calls :: "effect list \<Rightarrow> string list" where
  "open_calls es = [n. OpenCalled n \<leftarrow> es]"

definition put_calls :: "effect list \<Rightarrow> (string \<times> request \<times> jsval) list" where
  "put_calls es = [(n, r, v). PutCalled n r v \<leftarrow> es]"

definition clones :: "effect list \<Rightarrow> (jsval \<times> jsval) list" where
  "clones es = [(v, c). Cloned v c \<leftarrow> es]"

text \<open>Is a fetch called before the first time a cache lookup settles?\<close>

fun fetch_before_match_settles :: "effect list \<Rightarrow> bool" where
  "fetch_before_match_settles [] = False"
| "fetch_before_match_settles (FetchCalled r # es) = True"
| "fetch_before_match_settles (MatchSettled out # es) = False"
| "fetch_before_match_settles (e # es) = fetch_before_match_settles es"

fun rejected :: "'a outcome \<Rightarrow> bool" where
  "rejected (Rejected e) = True"
| "rejected (Fulfilled v) = False"

text \<open>What the page receives: the outcome, and the state of the response object it is
  fulfilled with.\<close>

definition delivered :: "jsval outcome \<times> world \<Rightarrow> jsval outcome \<times> response option" where
  "delivered rw =
     (case rw of
        (Fulfilled v, w) \<Rightarrow> (Fulfilled v, obj w v)
      | (Rejected e, w) \<Rightarrow> (Rejected e, None))"

text \<open>The world in which the listener starts the network attempt: after the lookup has
  settled and, when it was rejected, after the diagnostic of the listener.\<close>

definition network_start :: "platform \<Rightarrow> fetch_event \<Rightarrow> world \<Rightarrow> world" where
  "network_start P event w =
     (case caches_match P (request event) w of
        (Fulfilled cachedResponse, w1) \<Rightarrow> w1
      | (Rejected e, w1) \<Rightarrow> emit (ConsoleError ''ServiceWorker cache match failed: '' e) w1)"

subsection \<open>The scenarios of the specification\<close>

definition online :: platform where
  "online = \<lparr>match_fault = (\<lambda>r. None), network = (\<lambda>r. Inr ''v2''),
     open_fault = (\<lambda>n. None), put_fault = (\<lambda>n r. None)\<rparr>"

definition offline :: platform where
  "offline = \<lparr>match_fault = (\<lambda>r. None), network = (\<lambda>r. Inl ''offline''),
     open_fault = (\<lambda>n. None), put_fault = (\<lambda>n r. None)\<rparr>"

definition lookup_broken :: platform where
  "lookup_broken = \<lparr>match_fault = (\<lambda>r. Some ''boom''), network = (\<lambda>r. Inr ''v3''),
     open_fault = (\<lambda>n. None), put_fault = (\<lambda>n r. None)\<rparr>"

definition lookup_broken_offline :: platform where
  "lookup_broken_offline = \<lparr>match_fault = (\<lambda>r. Some ''boom''), network = (\<lambda>r. Inl ''offline''),
     open_fault = (\<lambda>n. None), put_fault = (\<lambda>n r. None)\<rparr>"

definition put_refused :: platform where
  "put_refused = \<lparr>match_fault = (\<lambda>r. None), network = (\<lambda>r. Inr ''v2''),
     open_fault = (\<lambda>n. None), put_fault = (\<lambda>n r. Some ''TypeError'')\<rparr>"

definition event_R :: fetch_event where
  "event_R = \<lparr>request = ''R''\<rparr>"

definition empty_world :: world where
  "empty_world = \<lparr>heap = [], caches = [], trace = []\<rparr>"

definition cached_world :: world where
  "cached_world =
     \<lparr>heap = [],
      caches = [(''xpress-calc'', [''R'' \<mapsto> ''v1'', ''S'' \<mapsto> ''s1'']),
                (''other'', [''R'' \<mapsto> ''x''])],
      trace = []\<rparr>"

section \<open>Properties\<close>

subsection \<open>The cache stores\<close>

lemma map_of_storage_open_other:
  "n' \<noteq> n \<Longrightarrow> map_of (storage_open cs n) n' = map_of cs n'"
  by (simp add: storage_open_def map_add_def split: option.splits)

lemma storage_open_exists: "map_of (storage_open cs n) n \<noteq> None"
  by (auto simp: storage_open_def map_add_def split: option.splits)

lemma entry_storage_open: "entry (storage_open cs n) n' k = entry cs n' k"
  by (auto simp: entry_def storage_open_def map_add_def split: option.splits)

lemma map_of_storage_put_other:
  "n' \<noteq> n \<Longrightarrow> map_of (storage_put cs n k b) n' = map_of cs n'"
  by (induction cs n k b rule: storage_put.induct) auto

lemma map_of_storage_put_same:
  "map_of (storage_put cs n k b) n = map_option (\<lambda>c. c(k \<mapsto> b)) (map_of cs n)"
  by (induction cs n k b rule: storage_put.induct) auto

lemma entry_storage_put:
  "entry (storage_put cs n k b) n' k' =
     (if n' = n \<and> k' = k \<and> map_of cs n \<noteq> None then Some b else entry cs n' k')"
proof (cases "n' = n")
  case True
  then show ?thesis
    by (cases "map_of cs n") (simp_all add: entry_def map_of_storage_put_same)
next
  case False
  then show ?thesis
    by (simp add: entry_def map_of_storage_put_other)
qed

subsection \<open>The network attempt\<close>

lemmas primitives =
  promise_catch_def promise_then_def detached_def resolve_def reject_def
  fetch_def clone_def caches_open_def cache_put_def console_error_def
  alloc_def emit_def obj_def

lemmas readers =
  fetch_calls_def fetched_def console_def open_calls_def put_calls_def clones_def

lemmas scenarios =
  online_def offline_def lookup_broken_def lookup_broken_offline_def put_refused_def
  event_R_def empty_world_def cached_world_def

lemma requestOverNetwork_outcome:
  "fst (requestOverNetwork P ev w) =
     (case network P (request ev) of
        Inl e \<Rightarrow> Rejected e
      | Inr b \<Rightarrow> Fulfilled (Resp (length (heap w))))"
  by (simp add: requestOverNetwork_def primitives Let_def split: sum.splits option.splits)

lemma requestOverNetwork_failed:
  assumes "network P (request ev) = Inl e"
  shows "snd (requestOverNetwork P ev w) =
     emit (ConsoleError ''ServiceWorker fetch failed: '' e)
       (emit (FetchSettled (Rejected e)) (emit (FetchCalled (request ev)) w))"
  using assms by (simp add: requestOverNetwork_def primitives Let_def)

lemma requestOverNetwork_heap:
  assumes "network P (request ev) = Inr b"
  shows "heap (snd (requestOverNetwork P ev w)) =
     heap w @ [\<lparr>body = b, bodyUsed = False\<rparr>,
               \<lparr>body = b, bodyUsed = (open_fault P ''xpress-calc'' = None \<and>
                    put_fault P ''xpress-calc'' (request ev) = None)\<rparr>]"
  using assms
  by (simp add: requestOverNetwork_def primitives Let_def nth_append list_update_append
        split: option.splits)

lemma requestOverNetwork_caches:
  assumes "network P (request ev) = Inr b"
  shows "caches (snd (requestOverNetwork P ev w)) =
     (case open_fault P ''xpress-calc'' of
        Some e \<Rightarrow> caches w
      | None \<Rightarrow>
          (case put_fault P ''xpress-calc'' (request ev) of
             Some e \<Rightarrow> storage_open (caches w) ''xpress-calc''
           | None \<Rightarrow>
               storage_put (storage_open (caches w) ''xpress-calc'')
                 ''xpress-calc'' (request ev) b))"
  using assms
  by (simp add: requestOverNetwork_def primitives Let_def nth_append split: option.splits)

lemma requestOverNetwork_trace:
  assumes "network P (request ev) = Inr b"
  shows "trace (snd (requestOverNetwork P ev w)) =
     trace w @
     [FetchCalled (request ev), FetchSettled (Fulfilled (Resp (length (heap w)))),
      Cloned (Resp (length (heap w))) (Resp (Suc (length (heap w)))),
      OpenCalled ''xpress-calc''] @
     (case open_fault P ''xpress-calc'' of
        Some e \<Rightarrow> [OpenSettled (Rejected e)]
      | None \<Rightarrow>
          [OpenSettled (Fulfilled ''xpress-calc''),
           PutCalled ''xpress-calc'' (request ev) (Resp (Suc (length (heap w)))),
           PutSettled (case put_fault P ''xpress-calc'' (request ev) of
                         Some e \<Rightarrow> Rejected e | None \<Rightarrow> Fulfilled ())])"
  using assms
  by (simp add: requestOverNetwork_def primitives Let_def nth_append split: option.splits)

subsection \<open>The listener\<close>

lemma onfetch_unfold:
  "onfetch P ev w =
     (case caches_match P (request ev) w of
        (Fulfilled cachedResponse, w1) \<Rightarrow>
          (case requestOverNetwork P ev w1 of
             (Fulfilled r, w2) \<Rightarrow> (Fulfilled r, w2)
           | (Rejected e, w2) \<Rightarrow> (Fulfilled cachedResponse, w2))
      | (Rejected e, w1) \<Rightarrow>
          requestOverNetwork P ev
            (emit (ConsoleError ''ServiceWorker cache match failed: '' e) w1))"
  by (simp add: onfetch_def promise_catch_def promise_then_def resolve_def console_error_def
        Let_def split: prod.splits outcome.splits)

lemma caches_match_trace:
  "trace (snd (caches_match P req w)) =
     trace w @ [MatchCalled req, MatchSettled (fst (caches_match P req w))]"
  by (simp add: caches_match_def primitives Let_def split: option.splits)

lemma caches_match_caches: "caches (snd (caches_match P req w)) = caches w"
  by (simp add: caches_match_def primitives Let_def split: option.splits)

lemma network_start_trace:
  "trace (network_start P ev w) =
     trace w @ MatchCalled (request ev) # MatchSettled (fst (caches_match P (request ev) w)) #
       (case fst (caches_match P (request ev) w) of
          Fulfilled c \<Rightarrow> []
        | Rejected e \<Rightarrow> [ConsoleError ''ServiceWorker cache match failed: '' e])"
  using caches_match_trace[of P "request ev" w]
  by (cases "caches_match P (request ev) w"; cases "fst (caches_match P (request ev) w)")
     (auto simp: network_start_def emit_def)

lemma network_start_caches: "caches (network_start P ev w) = caches w"
  using caches_match_caches[of P "request ev" w]
  by (cases "caches_match P (request ev) w"; cases "fst (caches_match P (request ev) w)")
     (auto simp: network_start_def emit_def)

lemma network_start_heap: "heap (network_start P ev w) = heap (snd (caches_match P (request ev) w))"
  by (simp add: network_start_def emit_def split: prod.splits outcome.splits)

lemma onfetch_world:
  "snd (onfetch P ev w) = snd (requestOverNetwork P ev (network_start P ev w))"
  by (simp add: onfetch_unfold network_start_def split: prod.splits outcome.splits)

lemma onfetch_outcome:
  "fst (onfetch P ev w) =
     (case network P (request ev) of
        Inr b \<Rightarrow> Fulfilled (Resp (length (heap (network_start P ev w))))
      | Inl e \<Rightarrow>
          (case fst (caches_match P (request ev) w) of
             Fulfilled cachedResponse \<Rightarrow> Fulfilled cachedResponse
           | Rejected e' \<Rightarrow> Rejected e))"
proof (cases "caches_match P (request ev) w")
  case (Pair r w1)
  show ?thesis
  proof (cases r)
    case (Fulfilled c)
    with Pair show ?thesis
      using requestOverNetwork_outcome[of P ev w1]
      by (cases "requestOverNetwork P ev w1")
         (auto simp: onfetch_unfold network_start_def split: sum.splits outcome.splits)
  next
    case (Rejected e)
    with Pair show ?thesis
      using requestOverNetwork_outcome[of P ev "emit (ConsoleError ''ServiceWorker cache match failed: '' e) w1"]
      by (auto simp: onfetch_unfold network_start_def split: sum.splits)
  qed
qed

lemma obj_heap: "heap w = heap w' \<Longrightarrow> obj w v = obj w' v"
  by (cases v) (simp_all add: obj_def)

lemma requestOverNetwork_failed_heap:
  "network P (request ev) = Inl e \<Longrightarrow> heap (snd (requestOverNetwork P ev w)) = heap w"
  by (simp add: requestOverNetwork_failed emit_def)

lemma requestOverNetwork_failed_caches:
  "network P (request ev) = Inl e \<Longrightarrow> caches (snd (requestOverNetwork P ev w)) = caches w"
  by (simp add: requestOverNetwork_failed emit_def)

lemma requestOverNetwork_failed_trace:
  "network P (request ev) = Inl e \<Longrightarrow>
   trace (snd (requestOverNetwork P ev w)) =
     trace w @ [FetchCalled (request ev), FetchSettled (Rejected e),
                ConsoleError ''ServiceWorker fetch failed: '' e]"
  by (simp add: requestOverNetwork_failed emit_def)

lemma onfetch_delivered:
  "delivered (onfetch P ev w) =
     (case network P (request ev) of
        Inr b \<Rightarrow> (Fulfilled (Resp (length (heap (network_start P ev w)))),
                  Some \<lparr>body = b, bodyUsed = False\<rparr>)
      | Inl e \<Rightarrow>
          (case fst (caches_match P (request ev) w) of
             Fulfilled cachedResponse \<Rightarrow>
               (Fulfilled cachedResponse, obj (snd (caches_match P (request ev) w)) cachedResponse)
           | Rejected e' \<Rightarrow> (Rejected e, None)))"
proof (cases "network P (request ev)")
  case (Inl e)
  have "heap (snd (onfetch P ev w)) = heap (snd (caches_match P (request ev) w))"
    by (simp add: onfetch_world requestOverNetwork_failed_heap[OF Inl] network_start_heap)
  then have "obj (snd (onfetch P ev w)) v = obj (snd (caches_match P (request ev) w)) v" for v
    by (rule obj_heap)
  with Inl show ?thesis
    using onfetch_outcome[of P ev w]
    by (cases "onfetch P ev w") (auto simp: delivered_def split: outcome.splits)
next
  case (Inr b)
  have "obj (snd (onfetch P ev w)) (Resp (length (heap (network_start P ev w)))) =
          Some \<lparr>body = b, bodyUsed = False\<rparr>"
    by (simp add: onfetch_world requestOverNetwork_heap[OF Inr] obj_def nth_append)
  with Inr show ?thesis
    using onfetch_outcome[of P ev w]
    by (cases "onfetch P ev w") (auto simp: delivered_def split: outcome.splits)
qed

lemma caches_match_faults:
  "caches_match (P\<lparr>open_fault := f, put_fault := g\<rparr>) = caches_match P"
  by (intro ext) (simp add: caches_match_def)

lemma network_start_faults:
  "network_start (P\<lparr>open_fault := f, put_fault := g\<rparr>) = network_start P"
  by (intro ext) (simp add: network_start_def caches_match_faults)

lemmas run = onfetch_def requestOverNetwork_def caches_match_def primitives Let_def

section \<open>The claims\<close>

text \<open>
  C2. When the cache lookup of an event resolves with a cached response \<open>v\<close> and the
  network fetch rejects, the promise of the listener is fulfilled with \<open>v\<close>, the very
  object the lookup delivered, in the state in which the lookup delivered it.
\<close>

theorem cached_response_when_network_fails:
  assumes "fst (caches_match P (request ev) w) = Fulfilled (Resp v)"
    and "network P (request ev) = Inl e"
  shows "fst (onfetch P ev w) = Fulfilled (Resp v) \<and>
         obj (snd (onfetch P ev w)) (Resp v) = obj (snd (caches_match P (request ev) w)) (Resp v)"
  using assms onfetch_delivered[of P ev w]
  by (cases "onfetch P ev w") (auto simp: delivered_def split: outcome.splits)

text \<open>Scenario A of the specification: "v1" is cached for R and the network is down.\<close>

theorem cached_response_when_network_fails_witness:
  "fst (caches_match offline (request event_R) cached_world) = Fulfilled (Resp 0) \<and>
   network offline (request event_R) = Inl ''offline'' \<and>
   fst (onfetch offline event_R cached_world) = Fulfilled (Resp 0) \<and>
   obj (snd (onfetch offline event_R cached_world)) (Resp 0) =
     Some \<lparr>body = ''v1'', bodyUsed = False\<rparr>"
proof -
  have h1: "fst (caches_match offline (request event_R) cached_world) = Fulfilled (Resp 0)"
    by (simp add: scenarios caches_match_def primitives)
  have h2: "network offline (request event_R) = Inl ''offline''"
    by (simp add: scenarios)
  have h3: "obj (snd (caches_match offline (request event_R) cached_world)) (Resp 0) =
     Some \<lparr>body = ''v1'', bodyUsed = False\<rparr>"
    by (simp add: scenarios caches_match_def primitives)
  from cached_response_when_network_fails[OF h1 h2] h1 h2 h3 show ?thesis by simp
qed

text \<open>
  C5. The outcome of the cache write never reaches the page: whatever the opening of the
  store and the write answer (\<open>f\<close>, \<open>g\<close> against \<open>f'\<close>, \<open>g'\<close>), the promise of the
  listener settles in the same way, and the response it is fulfilled with is in the same
  state.
\<close>

theorem cache_write_outcome_is_not_observed:
  "delivered (onfetch (P\<lparr>open_fault := f, put_fault := g\<rparr>) ev w) =
   delivered (onfetch (P\<lparr>open_fault := f', put_fault := g'\<rparr>) ev w)"
  by (simp add: onfetch_delivered caches_match_faults network_start_faults
        split: sum.splits outcome.splits)

text \<open>
  C1, as stated, fails: the network answers "v2" for R, the listener is fulfilled with that
  response, but the write is refused and the store still holds the old entry "v1", not
  "v2" (Scenario C of the specification with a failing \<^verbatim>\<open>cache.put\<close>).
\<close>

theorem network_response_has_priority_counterexample:
  "network put_refused (request event_R) = Inr ''v2'' \<and>
   fst (onfetch put_refused event_R cached_world) = Fulfilled (Resp 1) \<and>
   entry (caches (snd (onfetch put_refused event_R cached_world))) ''xpress-calc'' (request event_R)
     \<noteq> Some ''v2''"
  by (simp add: scenarios run entry_def storage_open_def)

text \<open>
  C1, amended. When the network fetch of an event succeeds with a response of body \<open>b\<close>,
  the promise of the listener is fulfilled with that response (the one and only response
  fetched for the event, its body unread), whatever the cache holds; and when the opening
  of the store and the write both succeed, the store "xpress-calc" afterwards holds \<open>b\<close>
  under the request of the event.
\<close>

theorem network_response_has_priority:
  assumes "network P (request ev) = Inr b"
  shows "\<exists>a. fst (onfetch P ev w) = Fulfilled (Resp a) \<and>
           fetched (trace (snd (onfetch P ev w))) = fetched (trace w) @ [Fulfilled (Resp a)] \<and>
           obj (snd (onfetch P ev w)) (Resp a) = Some \<lparr>body = b, bodyUsed = False\<rparr> \<and>
           (open_fault P ''xpress-calc'' = None \<and> put_fault P ''xpress-calc'' (request ev) = None
              \<longrightarrow> entry (caches (snd (onfetch P ev w))) ''xpress-calc'' (request ev) = Some b)"
proof -
  let ?s = "network_start P ev w"
  let ?a = "length (heap ?s)"
  have d: "delivered (onfetch P ev w) = (Fulfilled (Resp ?a), Some \<lparr>body = b, bodyUsed = False\<rparr>)"
    using assms by (simp add: onfetch_delivered)
  then have 1: "fst (onfetch P ev w) = Fulfilled (Resp ?a)"
    and 3: "obj (snd (onfetch P ev w)) (Resp ?a) = Some \<lparr>body = b, bodyUsed = False\<rparr>"
    by (cases "onfetch P ev w"; auto simp: delivered_def split: outcome.splits)+
  have 2: "fetched (trace (snd (onfetch P ev w))) = fetched (trace w) @ [Fulfilled (Resp ?a)]"
    by (auto simp: onfetch_world requestOverNetwork_trace[OF assms] network_start_trace fetched_def
          split: option.splits outcome.splits)
  have 4: "entry (caches (snd (onfetch P ev w))) ''xpress-calc'' (request ev) = Some b"
    if "open_fault P ''xpress-calc'' = None" "put_fault P ''xpress-calc'' (request ev) = None"
    using that
    by (simp add: onfetch_world requestOverNetwork_caches[OF assms] network_start_caches
          entry_storage_put storage_open_exists)
  show ?thesis
    by (rule exI[of _ ?a]) (simp add: 1 2 3 4)
qed

text \<open>Scenario C of the specification: "v1" is cached for R, the network answers "v2".\<close>

theorem network_response_has_priority_witness:
  "network online (request event_R) = Inr ''v2'' \<and>
   fst (onfetch online event_R cached_world) = Fulfilled (Resp 1) \<and>
   obj (snd (onfetch online event_R cached_world)) (Resp 1) =
     Some \<lparr>body = ''v2'', bodyUsed = False\<rparr> \<and>
   open_fault online ''xpress-calc'' = None \<and>
   put_fault online ''xpress-calc'' (request event_R) = None \<and>
   entry (caches cached_world) ''xpress-calc'' (request event_R) = Some ''v1'' \<and>
   entry (caches (snd (onfetch online event_R cached_world))) ''xpress-calc'' (request event_R) =
     Some ''v2''"
proof -
  have h: "network online (request event_R) = Inr ''v2''"
    by (simp add: scenarios)
  have f: "open_fault online ''xpress-calc'' = None"
    "put_fault online ''xpress-calc'' (request event_R) = None"
    by (simp_all add: scenarios)
  have r: "fst (onfetch online event_R cached_world) = Fulfilled (Resp 1)"
    by (simp add: scenarios run)
  have e: "entry (caches cached_world) ''xpress-calc'' (request event_R) = Some ''v1''"
    by (simp add: scenarios entry_def)
  from network_response_has_priority[OF h, of cached_world] r h f e show ?thesis by auto
qed

text \<open>
  C3, as stated, fails: with nothing cached for R and the network down, the promise of
  the listener is not rejected.
\<close>

theorem miss_and_network_failure_counterexample:
  "fst (caches_match offline (request event_R) empty_world) = Fulfilled Undefined \<and>
   network offline (request event_R) = Inl ''offline'' \<and>
   \<not> rejected (fst (onfetch offline event_R empty_world))"
  by (simp add: scenarios run)

text \<open>
  C3, amended. When the cache lookup of an event resolves with no entry and the network
  fetch rejects, the promise of the listener is fulfilled with \<^verbatim>\<open>undefined\<close>: the inner
  \<^verbatim>\<open>catch\<close> returns \<^verbatim>\<open>cachedResponse\<close> as it is, so no response object is handed over.
\<close>

theorem miss_and_network_failure:
  assumes "fst (caches_match P (request ev) w) = Fulfilled Undefined"
    and "network P (request ev) = Inl e"
  shows "fst (onfetch P ev w) = Fulfilled Undefined"
  using assms by (simp add: onfetch_outcome)

theorem miss_and_network_failure_witness:
  "fst (caches_match offline (request event_R) empty_world) = Fulfilled Undefined \<and>
   network offline (request event_R) = Inl ''offline'' \<and>
   fst (onfetch offline event_R empty_world) = Fulfilled Undefined"
proof -
  have h1: "fst (caches_match offline (request event_R) empty_world) = Fulfilled Undefined"
    by (simp add: scenarios caches_match_def primitives)
  have h2: "network offline (request event_R) = Inl ''offline''"
    by (simp add: scenarios)
  from miss_and_network_failure[OF h1 h2] h1 h2 show ?thesis by simp
qed

text \<open>
  C4. When the lookup primitive itself rejects with \<open>e\<close>, the listener writes exactly one
  diagnostic and then runs \<^verbatim>\<open>requestOverNetwork\<close> and nothing else: the whole run is the
  network attempt started in the world where the lookup has failed and that one entry has
  been written. No fetch was called before it and none is called after it. The outcome
  is the outcome of the network attempt as it is: its response, unread, on success, its
  rejection on failure. (The console then holds the entry of the listener, followed by the
  entry that the network attempt writes itself when the fetch fails.)
\<close>

theorem lookup_failure_falls_back_to_network:
  assumes "match_fault P (request ev) = Some e"
  shows "onfetch P ev w =
           requestOverNetwork P ev
             (emit (ConsoleError ''ServiceWorker cache match failed: '' e)
                (emit (MatchSettled (Rejected e)) (emit (MatchCalled (request ev)) w))) \<and>
         (\<exists>rest. trace (snd (onfetch P ev w)) =
             trace w @ [MatchCalled (request ev), MatchSettled (Rejected e),
                        ConsoleError ''ServiceWorker cache match failed: '' e,
                        FetchCalled (request ev)] @ rest \<and>
             fetch_calls rest = []) \<and>
         console (trace (snd (onfetch P ev w))) =
           console (trace w) @ (''ServiceWorker cache match failed: '', e) #
             (case network P (request ev) of
                Inl e' \<Rightarrow> [(''ServiceWorker fetch failed: '', e')]
              | Inr b \<Rightarrow> []) \<and>
         delivered (onfetch P ev w) =
           (case network P (request ev) of
              Inl e' \<Rightarrow> (Rejected e', None)
            | Inr b \<Rightarrow> (Fulfilled (Resp (length (heap w))), Some \<lparr>body = b, bodyUsed = False\<rparr>))"
proof -
  have m: "caches_match P (request ev) w =
     (Rejected e, emit (MatchSettled (Rejected e)) (emit (MatchCalled (request ev)) w))"
    using assms by (simp add: caches_match_def Let_def)
  then have s: "network_start P ev w =
      emit (ConsoleError ''ServiceWorker cache match failed: '' e)
        (emit (MatchSettled (Rejected e)) (emit (MatchCalled (request ev)) w))"
    by (simp add: network_start_def)
  have 1: "onfetch P ev w = requestOverNetwork P ev
             (emit (ConsoleError ''ServiceWorker cache match failed: '' e)
                (emit (MatchSettled (Rejected e)) (emit (MatchCalled (request ev)) w)))"
    by (simp add: onfetch_unfold m)
  have t: "trace (network_start P ev w) =
      trace w @ [MatchCalled (request ev), MatchSettled (Rejected e),
                 ConsoleError ''ServiceWorker cache match failed: '' e]"
    by (simp add: s emit_def)
  have h: "heap (network_start P ev w) = heap w"
    by (simp add: s emit_def)
  have 2: "\<exists>rest. trace (snd (onfetch P ev w)) =
             trace w @ [MatchCalled (request ev), MatchSettled (Rejected e),
                        ConsoleError ''ServiceWorker cache match failed: '' e,
                        FetchCalled (request ev)] @ rest \<and>
             fetch_calls rest = []"
  proof (cases "network P (request ev)")
    case (Inl e')
    show ?thesis
      by (rule exI[of _ "[FetchSettled (Rejected e'), ConsoleError ''ServiceWorker fetch failed: '' e']"])
         (simp add: onfetch_world requestOverNetwork_failed_trace[OF Inl] t fetch_calls_def)
  next
    case (Inr b)
    show ?thesis
      unfolding onfetch_world requestOverNetwork_trace[OF Inr] t h
      by (cases "open_fault P ''xpress-calc''") (simp_all add: fetch_calls_def)
  qed
  have 3: "console (trace (snd (onfetch P ev w))) =
           console (trace w) @ (''ServiceWorker cache match failed: '', e) #
             (case network P (request ev) of
                Inl e' \<Rightarrow> [(''ServiceWorker fetch failed: '', e')]
              | Inr b \<Rightarrow> [])"
  proof (cases "network P (request ev)")
    case (Inl e')
    then show ?thesis
      by (simp add: onfetch_world requestOverNetwork_failed_trace[OF Inl] t console_def)
  next
    case (Inr b)
    then show ?thesis
      unfolding onfetch_world requestOverNetwork_trace[OF Inr] t h
      by (cases "open_fault P ''xpress-calc''") (simp_all add: console_def)
  qed
  have 4: "delivered (onfetch P ev w) =
           (case network P (request ev) of
              Inl e' \<Rightarrow> (Rejected e', None)
            | Inr b \<Rightarrow> (Fulfilled (Resp (length (heap w))), Some \<lparr>body = b, bodyUsed = False\<rparr>))"
    by (simp add: onfetch_delivered m h split: sum.splits)
  from 1 2 3 4 show ?thesis by simp
qed

text \<open>Scenario D of the specification: the lookup throws, the network answers "v3"; one
  diagnostic is recorded.\<close>

theorem lookup_failure_falls_back_to_network_witness:
  "match_fault lookup_broken (request event_R) = Some ''boom'' \<and>
   trace (snd (onfetch lookup_broken event_R cached_world)) =
     [MatchCalled ''R'', MatchSettled (Rejected ''boom''),
      ConsoleError ''ServiceWorker cache match failed: '' ''boom'',
      FetchCalled ''R'', FetchSettled (Fulfilled (Resp 0)), Cloned (Resp 0) (Resp 1),
      OpenCalled ''xpress-calc'', OpenSettled (Fulfilled ''xpress-calc''),
      PutCalled ''xpress-calc'' ''R'' (Resp 1), PutSettled (Fulfilled ())] \<and>
   console (trace (snd (onfetch lookup_broken event_R cached_world))) =
     [(''ServiceWorker cache match failed: '', ''boom'')] \<and>
   delivered (onfetch lookup_broken event_R cached_world) =
     (Fulfilled (Resp 0), Some \<lparr>body = ''v3'', bodyUsed = False\<rparr>)"
proof -
  have h: "match_fault lookup_broken (request event_R) = Some ''boom''"
    by (simp add: scenarios)
  have t: "trace (snd (onfetch lookup_broken event_R cached_world)) =
     [MatchCalled ''R'', MatchSettled (Rejected ''boom''),
      ConsoleError ''ServiceWorker cache match failed: '' ''boom'',
      FetchCalled ''R'', FetchSettled (Fulfilled (Resp 0)), Cloned (Resp 0) (Resp 1),
      OpenCalled ''xpress-calc'', OpenSettled (Fulfilled ''xpress-calc''),
      PutCalled ''xpress-calc'' ''R'' (Resp 1), PutSettled (Fulfilled ())]"
    by (simp add: scenarios run)
  have c: "console (trace cached_world) = []" "network lookup_broken (request event_R) = Inr ''v3''"
    "heap cached_world = []"
    by (simp_all add: scenarios console_def)
  note fallback = lookup_failure_falls_back_to_network[OF h, of cached_world]
  have k: "console (trace (snd (onfetch lookup_broken event_R cached_world))) =
     [(''ServiceWorker cache match failed: '', ''boom'')]"
    using fallback[THEN conjunct2, THEN conjunct2, THEN conjunct1] c by simp
  have d: "delivered (onfetch lookup_broken event_R cached_world) =
     (Fulfilled (Resp 0), Some \<lparr>body = ''v3'', bodyUsed = False\<rparr>)"
    using fallback[THEN conjunct2, THEN conjunct2, THEN conjunct2] c by simp
  from h t k d show ?thesis by simp
qed

text \<open>
  C8, as stated, fails: when the lookup primitive rejects, the number of fetches issued
  for the event is not two.
\<close>

theorem one_fetch_on_lookup_failure_counterexample:
  "match_fault lookup_broken (request event_R) = Some ''boom'' \<and>
   length (fetch_calls (trace (snd (onfetch lookup_broken event_R empty_world)))) \<noteq> 2"
  by (simp add: scenarios run fetch_calls_def)

text \<open>Every event issues exactly one fetch, for its own request.\<close>

lemma onfetch_fetch_calls:
  "fetch_calls (trace (snd (onfetch P ev w))) = fetch_calls (trace w) @ [request ev]"
proof (cases "network P (request ev)")
  case (Inl e)
  show ?thesis
    by (auto simp: onfetch_world requestOverNetwork_failed_trace[OF Inl] network_start_trace
          fetch_calls_def split: outcome.splits)
next
  case (Inr b)
  show ?thesis
    by (auto simp: onfetch_world requestOverNetwork_trace[OF Inr] network_start_trace
          fetch_calls_def split: outcome.splits option.splits)
qed

text \<open>
  C8, amended. When the lookup primitive rejects, exactly one network fetch is issued for
  the event, the one of the fallback path: the continuation of the primary path is skipped
  by the rejection, so no fetch from it is in flight.
\<close>

theorem one_fetch_on_lookup_failure:
  assumes "match_fault P (request ev) = Some e"
  shows "fetch_calls (trace (snd (onfetch P ev w))) = fetch_calls (trace w) @ [request ev]"
  by (rule onfetch_fetch_calls)

theorem one_fetch_on_lookup_failure_witness:
  "match_fault lookup_broken_offline (request event_R) = Some ''boom'' \<and>
   fetch_calls (trace (snd (onfetch lookup_broken_offline event_R empty_world))) = [''R'']"
proof -
  have h: "match_fault lookup_broken_offline (request event_R) = Some ''boom''"
    by (simp add: scenarios)
  have t: "fetch_calls (trace empty_world) = []" "request event_R = ''R''"
    by (simp_all add: scenarios fetch_calls_def)
  from one_fetch_on_lookup_failure[OF h, of empty_world] h t show ?thesis by simp
qed

text \<open>
  C6. In \<^verbatim>\<open>requestOverNetwork\<close>, when the fetch succeeds with a response of body \<open>b\<close>: the
  value returned is the response fetched, and its body is still unread afterwards; that
  response is duplicated once, right after the fetch settles and before any store is opened
  or written; the only write issued (when the store opens) is given the duplicate, a
  different object, under the request of the event; and when the write succeeds the store
  holds \<open>b\<close> under that request and it is the body of the duplicate that has been read.
\<close>

theorem cache_receives_the_clone:
  assumes "network P (request ev) = Inr b"
  shows "fst (requestOverNetwork P ev w) = Fulfilled (Resp (length (heap w))) \<and>
         obj (snd (requestOverNetwork P ev w)) (Resp (length (heap w))) =
           Some \<lparr>body = b, bodyUsed = False\<rparr> \<and>
         clones (trace (snd (requestOverNetwork P ev w))) =
           clones (trace w) @ [(Resp (length (heap w)), Resp (Suc (length (heap w))))] \<and>
         put_calls (trace (snd (requestOverNetwork P ev w))) =
           put_calls (trace w) @
             (case open_fault P ''xpress-calc'' of
                None \<Rightarrow> [(''xpress-calc'', request ev, Resp (Suc (length (heap w))))]
              | Some e \<Rightarrow> []) \<and>
         (\<exists>rest. trace (snd (requestOverNetwork P ev w)) =
             trace w @ [FetchCalled (request ev), FetchSettled (Fulfilled (Resp (length (heap w)))),
                        Cloned (Resp (length (heap w))) (Resp (Suc (length (heap w))))] @ rest) \<and>
         (open_fault P ''xpress-calc'' = None \<and> put_fault P ''xpress-calc'' (request ev) = None \<longrightarrow>
            entry (caches (snd (requestOverNetwork P ev w))) ''xpress-calc'' (request ev) = Some b \<and>
            obj (snd (requestOverNetwork P ev w)) (Resp (Suc (length (heap w)))) =
              Some \<lparr>body = b, bodyUsed = True\<rparr>)"
proof -
  have 1: "fst (requestOverNetwork P ev w) = Fulfilled (Resp (length (heap w)))"
    using assms by (simp add: requestOverNetwork_outcome)
  have 2: "obj (snd (requestOverNetwork P ev w)) (Resp (length (heap w))) =
           Some \<lparr>body = b, bodyUsed = False\<rparr>"
    by (simp add: obj_def requestOverNetwork_heap[OF assms] nth_append)
  have 3: "clones (trace (snd (requestOverNetwork P ev w))) =
           clones (trace w) @ [(Resp (length (heap w)), Resp (Suc (length (heap w))))]"
    unfolding requestOverNetwork_trace[OF assms]
    by (cases "open_fault P ''xpress-calc''") (simp_all add: clones_def)
  have 4: "put_calls (trace (snd (requestOverNetwork P ev w))) =
           put_calls (trace w) @
             (case open_fault P ''xpress-calc'' of
                None \<Rightarrow> [(''xpress-calc'', request ev, Resp (Suc (length (heap w))))]
              | Some e \<Rightarrow> [])"
    unfolding requestOverNetwork_trace[OF assms]
    by (cases "open_fault P ''xpress-calc''") (simp_all add: put_calls_def)
  have 5: "\<exists>rest. trace (snd (requestOverNetwork P ev w)) =
             trace w @ [FetchCalled (request ev), FetchSettled (Fulfilled (Resp (length (heap w)))),
                        Cloned (Resp (length (heap w))) (Resp (Suc (length (heap w))))] @ rest"
    unfolding requestOverNetwork_trace[OF assms] by simp
  have 6: "entry (caches (snd (requestOverNetwork P ev w))) ''xpress-calc'' (request ev) = Some b \<and>
            obj (snd (requestOverNetwork P ev w)) (Resp (Suc (length (heap w)))) =
              Some \<lparr>body = b, bodyUsed = True\<rparr>"
    if "open_fault P ''xpress-calc'' = None" "put_fault P ''xpress-calc'' (request ev) = None"
    using that
    by (simp add: requestOverNetwork_caches[OF assms] requestOverNetwork_heap[OF assms]
          entry_storage_put storage_open_exists obj_def nth_append)
  from 1 2 3 4 5 6 show ?thesis by simp
qed

theorem cache_receives_the_clone_witness:
  "network online (request event_R) = Inr ''v2'' \<and>
   fst (requestOverNetwork online event_R empty_world) = Fulfilled (Resp 0) \<and>
   obj (snd (requestOverNetwork online event_R empty_world)) (Resp 0) =
     Some \<lparr>body = ''v2'', bodyUsed = False\<rparr> \<and>
   clones (trace (snd (requestOverNetwork online event_R empty_world))) = [(Resp 0, Resp 1)] \<and>
   put_calls (trace (snd (requestOverNetwork online event_R empty_world))) =
     [(''xpress-calc'', ''R'', Resp 1)] \<and>
   open_fault online ''xpress-calc'' = None \<and>
   put_fault online ''xpress-calc'' (request event_R) = None \<and>
   entry (caches (snd (requestOverNetwork online event_R empty_world))) ''xpress-calc'' ''R'' =
     Some ''v2'' \<and>
   obj (snd (requestOverNetwork online event_R empty_world)) (Resp 1) =
     Some \<lparr>body = ''v2'', bodyUsed = True\<rparr>"
proof -
  have h: "network online (request event_R) = Inr ''v2''"
    by (simp add: scenarios)
  have f: "open_fault online ''xpress-calc'' = None"
    "put_fault online ''xpress-calc'' (request event_R) = None"
    "request event_R = ''R''" "heap empty_world = []" "trace empty_world = []"
    by (simp_all add: scenarios)
  from cache_receives_the_clone[OF h, of empty_world] h f show ?thesis
    by (simp add: clones_def put_calls_def)
qed

text \<open>
  C7, as stated, fails: in the run of Scenario B (nothing cached, the network answers) no
  fetch is called before the cache lookup has settled.
\<close>

theorem network_attempt_follows_lookup_counterexample:
  "\<not> fetch_before_match_settles (trace (snd (onfetch online event_R empty_world)))"
  by (simp add: scenarios run storage_open_def)

text \<open>
  C7, amended. For every event the cache lookup is called first and settles before
  anything else happens; the network attempt is started afterwards, in the continuation
  of the lookup (or in its rejection handler), and exactly one fetch is called, for the
  request of the event. The sequence is forced: cache lookup first, then network.
\<close>

theorem network_attempt_follows_lookup:
  "(\<exists>rest. trace (snd (onfetch P ev w)) =
      trace w @ MatchCalled (request ev) # MatchSettled (fst (caches_match P (request ev) w)) # rest \<and>
      fetch_calls rest = [request ev]) \<and>
   \<not> fetch_before_match_settles (drop (length (trace w)) (trace (snd (onfetch P ev w))))"
proof -
  have 1: "\<exists>rest. trace (snd (onfetch P ev w)) =
      trace w @ MatchCalled (request ev) # MatchSettled (fst (caches_match P (request ev) w)) # rest \<and>
      fetch_calls rest = [request ev]"
  proof (cases "network P (request ev)")
    case (Inl e)
    show ?thesis
      unfolding onfetch_world requestOverNetwork_failed_trace[OF Inl] network_start_trace
      by (cases "fst (caches_match P (request ev) w)") (simp_all add: fetch_calls_def)
  next
    case (Inr b)
    show ?thesis
      unfolding onfetch_world requestOverNetwork_trace[OF Inr] network_start_trace
      by (cases "fst (caches_match P (request ev) w)"; cases "open_fault P ''xpress-calc''")
         (simp_all add: fetch_calls_def)
  qed
  then obtain rest where
    "trace (snd (onfetch P ev w)) =
       trace w @ MatchCalled (request ev) # MatchSettled (fst (caches_match P (request ev) w)) # rest"
    by blast
  then have "\<not> fetch_before_match_settles (drop (length (trace w)) (trace (snd (onfetch P ev w))))"
    by simp
  with 1 show ?thesis by simp
qed

text \<open>
  C9. Whenever the cache lookup resolves, with a response or with no entry, the promise
  of the listener is not rejected; in particular, with no entry and a rejecting fetch it is
  fulfilled with \<^verbatim>\<open>undefined\<close>. A rejected promise of the listener is possible only when
  the lookup primitive itself was rejected.
\<close>

theorem handler_rejects_only_on_lookup_failure:
  "(fst (caches_match P (request ev) w) = Fulfilled c \<longrightarrow> \<not> rejected (fst (onfetch P ev w))) \<and>
   (fst (caches_match P (request ev) w) = Fulfilled Undefined \<and> network P (request ev) = Inl e \<longrightarrow>
      fst (onfetch P ev w) = Fulfilled Undefined) \<and>
   (rejected (fst (onfetch P ev w)) \<longrightarrow>
      rejected (fst (caches_match P (request ev) w)) \<and> match_fault P (request ev) \<noteq> None)"
proof -
  have m: "match_fault P (request ev) \<noteq> None" if "rejected (fst (caches_match P (request ev) w))"
    using that by (auto simp: caches_match_def primitives Let_def split: option.splits)
  show ?thesis
    using m
    by (cases "fst (caches_match P (request ev) w)"; cases "network P (request ev)")
       (simp_all add: onfetch_outcome)
qed

text \<open>Nothing cached and the network down: fulfilled with \<^verbatim>\<open>undefined\<close>. The lookup broken
  and the network down: rejected.\<close>

theorem handler_rejects_only_on_lookup_failure_witness:
  "fst (caches_match offline (request event_R) empty_world) = Fulfilled Undefined \<and>
   network offline (request event_R) = Inl ''offline'' \<and>
   \<not> rejected (fst (onfetch offline event_R empty_world)) \<and>
   fst (onfetch offline event_R empty_world) = Fulfilled Undefined \<and>
   rejected (fst (onfetch lookup_broken_offline event_R empty_world)) \<and>
   rejected (fst (caches_match lookup_broken_offline (request event_R) empty_world)) \<and>
   match_fault lookup_broken_offline (request event_R) \<noteq> None"
proof -
  have h1: "fst (caches_match offline (request event_R) empty_world) = Fulfilled Undefined"
    by (simp add: scenarios caches_match_def primitives)
  have h2: "network offline (request event_R) = Inl ''offline''"
    by (simp add: scenarios)
  have h3: "rejected (fst (onfetch lookup_broken_offline event_R empty_world))"
    by (simp add: scenarios run)
  from handler_rejects_only_on_lookup_failure[of offline event_R empty_world Undefined "''offline''"]
       handler_rejects_only_on_lookup_failure[of lookup_broken_offline event_R empty_world]
       h1 h2 h3
  show ?thesis by simp
qed

text \<open>The stores, the writes and the openings after an event.\<close>

lemma onfetch_caches:
  "caches (snd (onfetch P ev w)) =
     (case network P (request ev) of
        Inl e \<Rightarrow> caches w
      | Inr b \<Rightarrow>
          (case open_fault P ''xpress-calc'' of
             Some e \<Rightarrow> caches w
           | None \<Rightarrow>
               (case put_fault P ''xpress-calc'' (request ev) of
                  Some e \<Rightarrow> storage_open (caches w) ''xpress-calc''
                | None \<Rightarrow>
                    storage_put (storage_open (caches w) ''xpress-calc'')
                      ''xpress-calc'' (request ev) b)))"
  by (simp add: onfetch_world requestOverNetwork_caches requestOverNetwork_failed_caches
        network_start_caches split: sum.splits option.splits)

lemma onfetch_put_calls:
  "put_calls (trace (snd (onfetch P ev w))) =
     put_calls (trace w) @
       (case network P (request ev) of
          Inl e \<Rightarrow> []
        | Inr b \<Rightarrow>
            (case open_fault P ''xpress-calc'' of
               Some e \<Rightarrow> []
             | None \<Rightarrow> [(''xpress-calc'', request ev, Resp (Suc (length (heap (network_start P ev w)))))]))"
proof (cases "network P (request ev)")
  case (Inl e)
  show ?thesis
    by (auto simp: onfetch_world requestOverNetwork_failed_trace[OF Inl] network_start_trace
          put_calls_def Inl split: outcome.splits)
next
  case (Inr b)
  show ?thesis
    by (auto simp: onfetch_world requestOverNetwork_trace[OF Inr] network_start_trace
          put_calls_def Inr split: outcome.splits option.splits)
qed

lemma onfetch_open_calls:
  "open_calls (trace (snd (onfetch P ev w))) =
     open_calls (trace w) @
       (case network P (request ev) of Inl e \<Rightarrow> [] | Inr b \<Rightarrow> [''xpress-calc''])"
proof (cases "network P (request ev)")
  case (Inl e)
  show ?thesis
    by (auto simp: onfetch_world requestOverNetwork_failed_trace[OF Inl] network_start_trace
          open_calls_def Inl split: outcome.splits)
next
  case (Inr b)
  show ?thesis
    by (auto simp: onfetch_world requestOverNetwork_trace[OF Inr] network_start_trace
          open_calls_def Inr split: outcome.splits option.splits)
qed

text \<open>
  C10. While an event is handled, every store opened is "xpress-calc" and every write
  issued goes to "xpress-calc" under the request of the event; every other named store is
  left as it was, and so is the entry under every other key of every store.
\<close>

theorem cache_writes_are_framed:
  "(\<exists>os ps. open_calls (trace (snd (onfetch P ev w))) = open_calls (trace w) @ os \<and>
            put_calls (trace (snd (onfetch P ev w))) = put_calls (trace w) @ ps \<and>
            set os \<subseteq> {''xpress-calc''} \<and>
            set (map (\<lambda>(n, r, v). (n, r)) ps) \<subseteq> {(''xpress-calc'', request ev)}) \<and>
   (\<forall>n. n \<noteq> ''xpress-calc'' \<longrightarrow> map_of (caches (snd (onfetch P ev w))) n = map_of (caches w) n) \<and>
   (\<forall>n k. (n, k) \<noteq> (''xpress-calc'', request ev) \<longrightarrow>
      entry (caches (snd (onfetch P ev w))) n k = entry (caches w) n k)"
proof -
  have 1: "\<exists>os ps. open_calls (trace (snd (onfetch P ev w))) = open_calls (trace w) @ os \<and>
            put_calls (trace (snd (onfetch P ev w))) = put_calls (trace w) @ ps \<and>
            set os \<subseteq> {''xpress-calc''} \<and>
            set (map (\<lambda>(n, r, v). (n, r)) ps) \<subseteq> {(''xpress-calc'', request ev)}"
    unfolding onfetch_open_calls onfetch_put_calls
    by (cases "network P (request ev)"; cases "open_fault P ''xpress-calc''") simp_all
  have 2: "map_of (caches (snd (onfetch P ev w))) n = map_of (caches w) n" if "n \<noteq> ''xpress-calc''" for n
    using that
    by (simp add: onfetch_caches map_of_storage_put_other map_of_storage_open_other
          split: sum.splits option.splits)
  have 3: "entry (caches (snd (onfetch P ev w))) n k = entry (caches w) n k"
    if "(n, k) \<noteq> (''xpress-calc'', request ev)" for n k
    using that
    by (auto simp: onfetch_caches entry_storage_put entry_storage_open
          split: sum.splits option.splits)
  from 1 2 3 show ?thesis by blast
qed

text \<open>Scenario C with two stores: the store "other" and the entry of "xpress-calc" under
  S keep their values, the entry under R is replaced.\<close>

theorem cache_writes_are_framed_witness:
  "open_calls (trace (snd (onfetch online event_R cached_world))) = [''xpress-calc''] \<and>
   put_calls (trace (snd (onfetch online event_R cached_world))) = [(''xpress-calc'', ''R'', Resp 2)] \<and>
   ''other'' \<noteq> ''xpress-calc'' \<and>
   entry (caches (snd (onfetch online event_R cached_world))) ''other'' ''R'' = Some ''x'' \<and>
   (''xpress-calc'', ''S'') \<noteq> (''xpress-calc'', request event_R) \<and>
   entry (caches (snd (onfetch online event_R cached_world))) ''xpress-calc'' ''S'' = Some ''s1'' \<and>
   entry (caches (snd (onfetch online event_R cached_world))) ''xpress-calc'' ''R'' = Some ''v2''"
proof -
  note frame = cache_writes_are_framed[of online event_R cached_world]
  have a: "entry (caches cached_world) ''other'' ''R'' = Some ''x''"
    "entry (caches cached_world) ''xpress-calc'' ''S'' = Some ''s1''"
    "request event_R = ''R''"
    by (simp_all add: scenarios entry_def)
  have b: "entry (caches (snd (onfetch online event_R cached_world))) ''other'' ''R'' = Some ''x''"
    using frame[THEN conjunct2, THEN conjunct2, rule_format, of "''other''" "''R''"] a by simp
  have c: "entry (caches (snd (onfetch online event_R cached_world))) ''xpress-calc'' ''S'' = Some ''s1''"
    using frame[THEN conjunct2, THEN conjunct2, rule_format, of "''xpress-calc''" "''S''"] a by simp
  have d: "open_calls (trace (snd (onfetch online event_R cached_world))) = [''xpress-calc'']"
    "put_calls (trace (snd (onfetch online event_R cached_world))) = [(''xpress-calc'', ''R'', Resp 2)]"
    "entry (caches (snd (onfetch online event_R cached_world))) ''xpress-calc'' ''R'' = Some ''v2''"
    by (simp_all add: scenarios run readers entry_def storage_open_def)
  from a b c d show ?thesis by simp
qed

end
